theory Spec2Isabelle
  imports Complex_Main "HOL-Library.Word" "HOL-Library.AList"
begin

section \<open>Data model of the player session (package players)\<close>

text \<open>
  Go's \<open>int32\<close> is a 32-bit word: \<open>+\<close>, \<open>-\<close> and \<open>*\<close> wrap around, \<open>sint\<close> reads the
  two's complement value, comparisons of \<open>int32\<close> values are comparisons of \<open>sint\<close>.
  The keys of \<open>usedChunks\<close> have Go's type \<open>int\<close>; the code only stores, looks up and
  deletes them, so they are integers here.
\<close>

type_synonym int32 = "32 word"

text \<open>
  Modelled from the spec: the type \<open>permissions.Permission\<close> is not among the sources;
  the player code only calls \<open>GetName\<close> on it. The spec speaks of an override that
  "exists and is true", so a permission carries a name and a truth value.
\<close>

record Permission =
  permName :: string
  permValue :: bool

definition GetName :: "Permission \<Rightarrow> string" where
  "GetName permission = permName permission"

text \<open>
  Modelled from the spec: the type \<open>permissions.Group\<close> is not among the sources; the
  player code consumes it only through \<open>Group.HasPermission(name) -> bool\<close>, so a group
  is represented by the answer it gives for every name.
\<close>

datatype Group = Group (groupGrants: "string \<Rightarrow> bool")

definition GroupHasPermission :: "Group \<Rightarrow> string \<Rightarrow> bool" where
  "GroupHasPermission g permission = groupGrants g permission"

text \<open>
  A chunk is used through the interface \<open>interfaces.IChunk\<close>: \<open>GetX\<close>, \<open>GetZ\<close>,
  \<open>GetEntities\<close> are read, \<open>RemoveViewer\<close> is an effect on the chunk. An entity is used only
  as the receiver of \<open>DespawnFrom\<close>; it is represented by a number identifying it.
\<close>

type_synonym Entity = nat

record Chunk =
  chunkX :: int32
  chunkZ :: int32
  chunkEntities :: "Entity list"

definition GetX :: "Chunk \<Rightarrow> int32" where
  "GetX chunk = chunkX chunk"

definition GetZ :: "Chunk \<Rightarrow> int32" where
  "GetZ chunk = chunkZ chunk"

definition GetEntities :: "Chunk \<Rightarrow> Entity list" where
  "GetEntities chunk = chunkEntities chunk"

text \<open>
  The calls a session makes on its collaborators (the chunk, the entities of the chunk,
  its own network session), each with this player as the argument or the receiver.
\<close>

datatype effect =
  SendFullChunkData Chunk
  | RemoveViewer Chunk
  | DespawnFrom Entity

text \<open>
  The embedded \<open>*entities.Human\<close> holds position and rotation. The pointer is nil until
  \<open>PlaceInWorld\<close> has run. A \<open>float32\<close> is represented by the real number it denotes;
  the rounding of the additions on the rotation is not modelled.
\<close>

record Human =
  position :: "real \<times> real \<times> real"
  rotPitch :: real
  rotYaw :: real
  rotHeadYaw :: real

text \<open>
  The fields of \<open>Player\<close> that the functions below read or write. \<open>permissions\<close> and
  \<open>usedChunks\<close> are Go maps. \<open>usedChunks\<close> is ranged over by \<open>SyncMove\<close>, so it is an
  association list whose order stands for the order in which the runtime happens to
  visit the entries; a Go map holds each key once, which is \<open>distinctKeys\<close>.
\<close>

record Player =
  human :: "Human option"
  playerName :: string
  displayName :: string
  spawned :: bool
  permissions :: "string \<rightharpoonup> Permission"
  permissionGroup :: Group
  onGround :: bool
  viewDistance :: int32
  finalized :: bool
  usedChunks :: "(int \<times> Chunk) list"

definition distinctKeys :: "Player \<Rightarrow> bool" where
  "distinctKeys player = distinct (map fst (usedChunks player))"

section \<open>Operations of the player session\<close>

text \<open>
  \<open>NewPlayer(server, name)\<close>; the only thing read from the server is the default group of
  its permission manager, which is the first argument here.
\<close>

definition NewPlayer :: "Group \<Rightarrow> string \<Rightarrow> Player" where
  "NewPlayer defaultGroup name =
     \<lparr> human = None, playerName = name, displayName = name, spawned = False,
       permissions = Map.empty, permissionGroup = defaultGroup, onGround = False,
       viewDistance = 0, finalized = False, usedChunks = [] \<rparr>"

definition PlaceInWorld :: "real \<times> real \<times> real \<Rightarrow> real \<times> real \<times> real \<Rightarrow> Player \<Rightarrow> Player" where
  "PlaceInWorld pos rot player =
     player\<lparr> human := Some \<lparr> position = pos, rotPitch = fst rot,
                              rotYaw = fst (snd rot), rotHeadYaw = snd (snd rot) \<rparr> \<rparr>"

definition IsFinalized :: "Player \<Rightarrow> bool" where
  "IsFinalized player = finalized player"

definition SetFinalized :: "Player \<Rightarrow> Player" where
  "SetFinalized player = player\<lparr> finalized := True \<rparr>"

definition SetViewDistance :: "int32 \<Rightarrow> Player \<Rightarrow> Player" where
  "SetViewDistance distance player = player\<lparr> viewDistance := distance \<rparr>"

definition GetViewDistance :: "Player \<Rightarrow> int32" where
  "GetViewDistance player = viewDistance player"

definition GetPermissionGroup :: "Player \<Rightarrow> Group" where
  "GetPermissionGroup player = permissionGroup player"

definition SetPermissionGroup :: "Group \<Rightarrow> Player \<Rightarrow> Player" where
  "SetPermissionGroup g player = player\<lparr> permissionGroup := g \<rparr>"

definition HasPermission :: "Player \<Rightarrow> string \<Rightarrow> bool" where
  "HasPermission player permission =
     (if GroupHasPermission (GetPermissionGroup player) permission then True
      else (case permissions player permission of None \<Rightarrow> False | Some _ \<Rightarrow> True))"

text \<open>The result is the returned boolean and the player after the call.\<close>

definition AddPermission :: "Player \<Rightarrow> Permission \<Rightarrow> bool \<times> Player" where
  "AddPermission player permission =
     (let hasPermission = HasPermission player (GetName permission)
      in (hasPermission,
          player\<lparr> permissions := (permissions player)(GetName permission \<mapsto> permission) \<rparr>))"

definition RemovePermission :: "Player \<Rightarrow> string \<Rightarrow> bool \<times> Player" where
  "RemovePermission player permission =
     (if \<not> HasPermission player permission then (False, player)
      else (True, player\<lparr> permissions := (permissions player)(permission := None) \<rparr>))"

definition SendChunk :: "Chunk \<Rightarrow> int \<Rightarrow> Player \<Rightarrow> Player \<times> effect list" where
  "SendChunk chunk index player =
     (player\<lparr> usedChunks := AList.update index chunk (usedChunks player) \<rparr>,
      [SendFullChunkData chunk])"

definition HasChunkInUse :: "Player \<Rightarrow> int \<Rightarrow> bool" where
  "HasChunkInUse player index =
     (case map_of (usedChunks player) index of None \<Rightarrow> False | Some _ \<Rightarrow> True)"

definition HasAnyChunkInUse :: "Player \<Rightarrow> bool" where
  "HasAnyChunkInUse player = (0 < length (usedChunks player))"

subsection \<open>SyncMove\<close>

text \<open>
  \<open>int32(math2.Floor(float64(x)))\<close>. The conversion is exact when the floor fits 32 bits
  (\<open>fitsInt32\<close>). When it does not, Go leaves the result to the implementation; the
  compiled code (amd64) yields \<open>-2147483648\<close> for every such value, which is what the
  model returns.
\<close>

definition fitsInt32 :: "real \<Rightarrow> bool" where
  "fitsInt32 x = (- 2147483648 \<le> \<lfloor>x\<rfloor> \<and> \<lfloor>x\<rfloor> < 2147483648)"

definition floorInt32 :: "real \<Rightarrow> int32" where
  "floorInt32 x = (if fitsInt32 x then word_of_int \<lfloor>x\<rfloor> else - 2147483648)"

text \<open>The chunk coordinate \<open>int32(math2.Floor(float64(x))) >> 4\<close>, an arithmetic shift.\<close>

definition chunkCoord :: "real \<Rightarrow> int32" where
  "chunkCoord x = signed_drop_bit 4 (floorInt32 x)"

text \<open>The test \<open>xDist*xDist+zDist*zDist > rs\<close> of the loop body, on \<open>int32\<close>.\<close>

definition outOfRange :: "int32 \<Rightarrow> int32 \<Rightarrow> int32 \<Rightarrow> Chunk \<Rightarrow> bool" where
  "outOfRange cX cZ rs chunk =
     (let xDist = cX - GetX chunk;
          zDist = cZ - GetZ chunk
      in sint rs < sint (xDist * xDist + zDist * zDist))"

text \<open>
  The loop \<open>for index, chunk := range player.usedChunks\<close>: the first list is what remains
  to be visited, the second the map as it is now. An entry out of range is deleted from
  the map by its key; the calls made are collected in the order they are made.
\<close>

fun cullLoop ::
  "int32 \<Rightarrow> int32 \<Rightarrow> int32 \<Rightarrow> (int \<times> Chunk) list \<Rightarrow> (int \<times> Chunk) list
    \<Rightarrow> (int \<times> Chunk) list \<times> effect list" where
  "cullLoop cX cZ rs [] used = (used, [])"
| "cullLoop cX cZ rs ((index, chunk) # rest) used =
     (if outOfRange cX cZ rs chunk then
        (case cullLoop cX cZ rs rest (AList.delete index used) of
           (used', effs) \<Rightarrow>
             (used', RemoveViewer chunk # map DespawnFrom (GetEntities chunk) @ effs))
      else cullLoop cX cZ rs rest used)"

text \<open>
  \<open>SyncMove\<close> returns \<open>None\<close> where the Go code panics: position and rotation live behind
  the embedded \<open>*entities.Human\<close>, which is nil for a player not placed in a world.
\<close>

definition SyncMove ::
  "real \<Rightarrow> real \<Rightarrow> real \<Rightarrow> real \<Rightarrow> real \<Rightarrow> real \<Rightarrow> bool \<Rightarrow> Player
    \<Rightarrow> (Player \<times> effect list) option" where
  "SyncMove x y z pitch yaw headYaw og player =
     (case human player of
        None \<Rightarrow> None
      | Some h \<Rightarrow>
          (let h' = h\<lparr> position := (x, y, z),
                      rotPitch := rotPitch h + pitch,
                      rotYaw := rotYaw h + yaw,
                      rotHeadYaw := rotHeadYaw h + headYaw \<rparr>;
               cX = chunkCoord x;
               cZ = chunkCoord z;
               rs = GetViewDistance player * GetViewDistance player
           in (case cullLoop cX cZ rs (usedChunks player) (usedChunks player) of
                 (used', effs) \<Rightarrow>
                   Some (player\<lparr> human := Some h', onGround := og, usedChunks := used' \<rparr>,
                         effs))))"

text \<open>
  A sequence of movement syncs, one after the other on the same session; the calls made
  on the way are dropped. The arguments of one sync are \<open>(x, y, z, pitch, yaw, headYaw, onGround)\<close>.
\<close>

type_synonym move = "real \<times> real \<times> real \<times> real \<times> real \<times> real \<times> bool"

fun SyncMoves :: "move list \<Rightarrow> Player \<Rightarrow> Player option" where
  "SyncMoves [] player = Some player"
| "SyncMoves ((x, y, z, pitch, yaw, headYaw, og) # ms) player =
     (case SyncMove x y z pitch yaw headYaw og player of
        None \<Rightarrow> None
      | Some (player', effs) \<Rightarrow> SyncMoves ms player')"

section \<open>The login handler (package handlers)\<close>

text \<open>
  \<open>*server.Session\<close> is the handle of the connection. A byte slice is a list of
  characters (a HOL character is a byte), so \<open>string(loginPacket.GeometryData)\<close> is the
  list itself.
\<close>

type_synonym Session = nat
type_synonym bytes = string

record LoginPacket =
  Username :: string
  ClientUUID :: string
  ClientXUID :: string
  ClientId :: int
  Language :: string
  SkinId :: string
  SkinData :: bytes
  CapeData :: bytes
  GeometryName :: string
  GeometryData :: bytes

text \<open>
  A value of \<open>interfaces.IPacket\<close>: a login packet, or a packet of any other type (also
  the nil interface value), for which the type assertion of \<open>Handle\<close> fails.
\<close>

datatype IPacket = is_Login: Login LoginPacket | Other nat

datatype OutPacket = PlayStatusPacket int32 | ResourcePackInfoPacket

text \<open>
  Modelled from the spec: the constructor \<open>players.NewPlayer\<close> with six arguments and
  \<open>SetLanguage\<close>, which \<open>Handle\<close> calls, are not among the sources (the constructor
  above is an other version of it). The spec has the handler "construct an Identity and
  a Player Session bound to the transport handle" and "populate appearance/locale fields
  from the packet"; the record holds what the handler passes.
\<close>

record LoginPlayer =
  lpSession :: Session
  lpName :: string
  lpUUID :: string
  lpXUID :: string
  lpClientId :: int
  lpLanguage :: string
  lpSkinId :: string
  lpSkinData :: bytes
  lpCapeData :: bytes
  lpGeometryName :: string
  lpGeometryData :: string

definition NewPlayer_login :: "Session \<Rightarrow> string \<Rightarrow> string \<Rightarrow> string \<Rightarrow> int \<Rightarrow> LoginPlayer" where
  "NewPlayer_login session name uuid xuid clientId =
     \<lparr> lpSession = session, lpName = name, lpUUID = uuid, lpXUID = xuid,
       lpClientId = clientId, lpLanguage = [], lpSkinId = [], lpSkinData = [],
       lpCapeData = [], lpGeometryName = [], lpGeometryData = [] \<rparr>"

definition SetLanguage :: "string \<Rightarrow> LoginPlayer \<Rightarrow> LoginPlayer" where
  "SetLanguage language player = player\<lparr> lpLanguage := language \<rparr>"

definition SetSkinId :: "string \<Rightarrow> LoginPlayer \<Rightarrow> LoginPlayer" where
  "SetSkinId ident player = player\<lparr> lpSkinId := ident \<rparr>"

definition SetSkinData :: "bytes \<Rightarrow> LoginPlayer \<Rightarrow> LoginPlayer" where
  "SetSkinData d player = player\<lparr> lpSkinData := d \<rparr>"

definition SetCapeData :: "bytes \<Rightarrow> LoginPlayer \<Rightarrow> LoginPlayer" where
  "SetCapeData d player = player\<lparr> lpCapeData := d \<rparr>"

definition SetGeometryName :: "string \<Rightarrow> LoginPlayer \<Rightarrow> LoginPlayer" where
  "SetGeometryName name player = player\<lparr> lpGeometryName := name \<rparr>"

definition SetGeometryData :: "string \<Rightarrow> LoginPlayer \<Rightarrow> LoginPlayer" where
  "SetGeometryData d player = player\<lparr> lpGeometryData := d \<rparr>"

text \<open>
  What \<open>Handle\<close> reaches through \<open>interfaces.IServer\<close>: the registry of the player
  factory and the packets handed to the RakLib adapter, each with its session.
\<close>

record Server =
  players :: "string \<rightharpoonup> LoginPlayer"
  sent :: "(OutPacket \<times> Session) list"

datatype error = PlayerNotOnline

text \<open>
  Modelled from the spec: the player factory is not among the sources. The spec has
  \<open>GetPlayerByName(name) -> (session, found)\<close> and \<open>AddPlayer\<close>, which "inserts under the
  session's name key". \<open>Handle\<close> compares the second result with \<open>nil\<close>, so it is an
  error value, nil exactly when a session with the name is registered.
\<close>

definition GetPlayerByName :: "Server \<Rightarrow> string \<Rightarrow> LoginPlayer option \<times> error option" where
  "GetPlayerByName server name =
     (case players server name of
        None \<Rightarrow> (None, Some PlayerNotOnline)
      | Some player \<Rightarrow> (Some player, None))"

definition AddPlayer :: "LoginPlayer \<Rightarrow> Session \<Rightarrow> Server \<Rightarrow> Server" where
  "AddPlayer player session server =
     server\<lparr> players := (players server)(lpName player \<mapsto> player) \<rparr>"

definition SendPacket :: "OutPacket \<Rightarrow> Session \<Rightarrow> Server \<Rightarrow> Server" where
  "SendPacket pk session server = server\<lparr> sent := sent server @ [(pk, session)] \<rparr>"

text \<open>
  \<open>Handle\<close> returns its boolean, the session it constructed (if it constructed one) and
  the server after the call. The parameter \<open>player\<close> of the Go function is never read
  (the local variable of the same name hides it).
\<close>

definition Handle ::
  "IPacket \<Rightarrow> LoginPlayer option \<Rightarrow> Session \<Rightarrow> Server \<Rightarrow> bool \<times> LoginPlayer option \<times> Server" where
  "Handle packet player session server =
     (case packet of
        Login loginPacket \<Rightarrow>
          (case GetPlayerByName server (Username loginPacket) of
             (_, None) \<Rightarrow> (False, None, server)
           | (_, Some _) \<Rightarrow>
               (let player = NewPlayer_login session (Username loginPacket)
                               (ClientUUID loginPacket) (ClientXUID loginPacket)
                               (ClientId loginPacket);
                    player = SetLanguage (Language loginPacket) player;
                    player = SetSkinId (SkinId loginPacket) player;
                    player = SetSkinData (SkinData loginPacket) player;
                    player = SetCapeData (CapeData loginPacket) player;
                    player = SetGeometryName (GeometryName loginPacket) player;
                    player = SetGeometryData (GeometryData loginPacket) player;
                    server = SendPacket (PlayStatusPacket 0) session server;
                    server = SendPacket ResourcePackInfoPacket session server;
                    server = AddPlayer player session server
                in (True, Some player, server)))
      | Other _ \<Rightarrow> (True, None, server))"

section \<open>Quantities and predicates of the specification\<close>

text \<open>
  The squared planar distance between the chunk coordinate \<open>(cX, cZ)\<close> and a chunk, as an
  integer, without wrap-around.
\<close>

definition sqDist :: "int32 \<Rightarrow> int32 \<Rightarrow> Chunk \<Rightarrow> int" where
  "sqDist cX cZ chunk =
     (sint cX - sint (GetX chunk)) * (sint cX - sint (GetX chunk)) +
     (sint cZ - sint (GetZ chunk)) * (sint cZ - sint (GetZ chunk))"

text \<open>
  The computation of the loop body stays within 32 bits for this chunk: each coordinate
  difference is at most 32767 in magnitude (then the sum of the two squares is below
  \<open>2^31\<close>) and the view distance at most 46340 (then so is its square).
\<close>

definition noOverflow :: "int32 \<Rightarrow> int32 \<Rightarrow> int32 \<Rightarrow> Chunk \<Rightarrow> bool" where
  "noOverflow cX cZ vd chunk =
     (\<bar>sint cX - sint (GetX chunk)\<bar> \<le> 32767 \<and>
      \<bar>sint cZ - sint (GetZ chunk)\<bar> \<le> 32767 \<and>
      \<bar>sint vd\<bar> \<le> 46340)"

text \<open>
  \<open>HasPermission\<close> as the specification words it: the group grants the name, or an
  explicit override for the name exists and is true.
\<close>

definition specHasPermission :: "Player \<Rightarrow> string \<Rightarrow> bool" where
  "specHasPermission player permission =
     (GroupHasPermission (GetPermissionGroup player) permission \<or>
      (case permissions player permission of None \<Rightarrow> False | Some p \<Rightarrow> permValue p))"

section \<open>Concrete sessions used as examples\<close>

definition denyAll :: Group where
  "denyAll = Group (\<lambda>_. False)"

definition grantFly :: Group where
  "grantFly = Group (\<lambda>name. name = ''fly'')"

definition flyOn :: Permission where
  "flyOn = \<lparr> permName = ''fly'', permValue = True \<rparr>"

definition flyOff :: Permission where
  "flyOff = \<lparr> permName = ''fly'', permValue = False \<rparr>"

definition originChunk :: Chunk where
  "originChunk = \<lparr> chunkX = 0, chunkZ = 0, chunkEntities = [7] \<rparr>"

definition eastChunk :: Chunk where
  "eastChunk = \<lparr> chunkX = 5, chunkZ = 0, chunkEntities = [8, 9] \<rparr>"

text \<open>A player placed in a world at the origin, with the given view distance.\<close>

definition placed :: "int32 \<Rightarrow> Player" where
  "placed vd =
     SetViewDistance vd (PlaceInWorld (0, 64, 0) (0, 0, 0) (NewPlayer denyAll ''Steve''))"

definition steveLogin :: LoginPacket where
  "steveLogin =
     \<lparr> Username = ''Steve'', ClientUUID = ''u-1'', ClientXUID = ''x-1'', ClientId = 1,
       Language = ''en_US'', SkinId = ''skin'', SkinData = [], CapeData = [],
       GeometryName = ''geometry.humanoid'', GeometryData = [] \<rparr>"

definition emptyServer :: Server where
  "emptyServer = \<lparr> players = Map.empty, sent = [] \<rparr>"

text \<open>
  The same player tracking \<open>originChunk\<close> under index 0 and \<open>eastChunk\<close> under index 1,
  and the sessions that two of the examples below end in.
\<close>

definition tracking :: "int32 \<Rightarrow> Player" where
  "tracking vd = fst (SendChunk eastChunk 1 (fst (SendChunk originChunk 0 (placed vd))))"

definition midMoves :: Player where
  "midMoves =
     (tracking 3)\<lparr> human := Some \<lparr> position = (40, 64, 0), rotPitch = 0, rotYaw = 0,
                                     rotHeadYaw = 0 \<rparr>,
                    onGround := False \<rparr>"

definition afterMoves :: Player where
  "afterMoves =
     (tracking 3)\<lparr> human := Some \<lparr> position = (3, 70, 5), rotPitch = 1, rotYaw = 2,
                                     rotHeadYaw = 3 \<rparr>,
                    onGround := True, usedChunks := [(0, originChunk)] \<rparr>"

definition afterZero :: Player where
  "afterZero =
     (tracking 0)\<lparr> human := Some \<lparr> position = (3, 70, 5), rotPitch = 1, rotYaw = 2,
                                     rotHeadYaw = 3 \<rparr>,
                    onGround := True, usedChunks := [(0, originChunk)] \<rparr>"

definition steve :: LoginPlayer where
  "steve = NewPlayer_login 4 ''Steve'' ''u-0'' ''x-0'' 0"

definition steveOnline :: Server where
  "steveOnline = AddPlayer steve 4 emptyServer"

lemmas fixture_defs = tracking_def placed_def SendChunk_def SetViewDistance_def
  PlaceInWorld_def NewPlayer_def originChunk_def eastChunk_def GetX_def GetZ_def GetEntities_def

section \<open>Arithmetic on 32 bits without overflow\<close>

lemma sint32_exact:
  "- 2147483648 \<le> k \<Longrightarrow> k < 2147483648 \<Longrightarrow> signed_take_bit 31 (k::int) = k"
  by (simp add: signed_take_bit_int_eq_self)

lemma sq_bound:
  fixes d :: int
  assumes "\<bar>d\<bar> \<le> b"
  shows "d * d \<le> b * b" "0 \<le> d * d"
proof -
  from assms have "\<bar>d\<bar> * \<bar>d\<bar> \<le> b * b"
    by (intro mult_mono) auto
  then show "d * d \<le> b * b" by (simp add: abs_mult_self_eq)
  show "0 \<le> d * d" by simp
qed

lemma sint_sub_exact:
  fixes a b :: int32
  assumes "\<bar>sint a - sint b\<bar> \<le> 32767"
  shows "sint (a - b) = sint a - sint b"
  using assms by (simp add: sint_word_ariths sint32_exact)

lemma sint_square_sum_exact:
  fixes p q :: int32
  assumes "\<bar>sint p\<bar> \<le> 32767" "\<bar>sint q\<bar> \<le> 32767"
  shows "sint (p * p + q * q) = sint p * sint p + sint q * sint q"
proof -
  have p: "sint p * sint p \<le> 32767 * 32767" "0 \<le> sint p * sint p"
    using sq_bound [OF assms(1)] by simp_all
  have q: "sint q * sint q \<le> 32767 * 32767" "0 \<le> sint q * sint q"
    using sq_bound [OF assms(2)] by simp_all
  have pp: "signed_take_bit 31 (sint p * sint p) = sint p * sint p"
    using p by (intro sint32_exact) linarith+
  have qq: "signed_take_bit 31 (sint q * sint q) = sint q * sint q"
    using q by (intro sint32_exact) linarith+
  have "signed_take_bit 31 (sint p * sint p + sint q * sint q) =
          sint p * sint p + sint q * sint q"
    using p q by (intro sint32_exact) linarith+
  then show ?thesis
    by (simp add: sint_word_ariths pp qq)
qed

lemma sint_square_exact:
  fixes v :: int32
  assumes "\<bar>sint v\<bar> \<le> 46340"
  shows "sint (v * v) = sint v * sint v"
proof -
  have "sint v * sint v \<le> 46340 * 46340" "0 \<le> sint v * sint v"
    using sq_bound [OF assms] by simp_all
  then have "signed_take_bit 31 (sint v * sint v) = sint v * sint v"
    by (intro sint32_exact) linarith+
  then show ?thesis
    by (simp add: sint_word_ariths)
qed

lemma outOfRange_exact:
  assumes "noOverflow cX cZ vd chunk"
  shows "outOfRange cX cZ (vd * vd) chunk \<longleftrightarrow> sint vd * sint vd < sqDist cX cZ chunk"
proof -
  from assms have x: "\<bar>sint cX - sint (GetX chunk)\<bar> \<le> 32767"
    and z: "\<bar>sint cZ - sint (GetZ chunk)\<bar> \<le> 32767"
    and v: "\<bar>sint vd\<bar> \<le> 46340"
    by (simp_all add: noOverflow_def)
  have dx: "sint (cX - GetX chunk) = sint cX - sint (GetX chunk)"
    by (rule sint_sub_exact [OF x])
  have dz: "sint (cZ - GetZ chunk) = sint cZ - sint (GetZ chunk)"
    by (rule sint_sub_exact [OF z])
  have "sint ((cX - GetX chunk) * (cX - GetX chunk) + (cZ - GetZ chunk) * (cZ - GetZ chunk))
          = sqDist cX cZ chunk"
    using sint_square_sum_exact [of "cX - GetX chunk" "cZ - GetZ chunk"] x z
    by (simp add: dx dz sqDist_def)
  then show ?thesis
    by (simp add: outOfRange_def Let_def sint_square_exact [OF v])
qed

lemma chunkCoord_floor:
  assumes "fitsInt32 x"
  shows "sint (chunkCoord x) = \<lfloor>x\<rfloor> div 16"
proof -
  from assms have "- 2147483648 \<le> \<lfloor>x\<rfloor>" and "\<lfloor>x\<rfloor> < 2147483648"
    by (simp_all only: fitsInt32_def)
  then have "signed_take_bit 31 \<lfloor>x\<rfloor> = \<lfloor>x\<rfloor>"
    by (rule sint32_exact)
  then have "sint (floorInt32 x) = \<lfloor>x\<rfloor>"
    using assms by (simp add: floorInt32_def sint_sbintrunc')
  then show ?thesis
    by (simp add: chunkCoord_def sint_signed_drop_bit_eq drop_bit_eq_div)
qed

text \<open>Outside the range the chunk coordinate is that of \<open>-2147483648\<close>.\<close>

lemma chunkCoord_outside:
  assumes "\<not> fitsInt32 x"
  shows "chunkCoord x = - 134217728"
  using assms by (simp add: chunkCoord_def floorInt32_def)

section \<open>The culling loop of SyncMove\<close>

lemma cullLoop_effs:
  "snd (cullLoop cX cZ rs rest used) =
     concat (map (\<lambda>(index, chunk). RemoveViewer chunk # map DespawnFrom (GetEntities chunk))
                 (filter (\<lambda>(index, chunk). outOfRange cX cZ rs chunk) rest))"
  by (induction cX cZ rs rest used rule: cullLoop.induct) (simp_all add: case_prod_beta)

lemma cullLoop_used:
  "fst (cullLoop cX cZ rs rest used) =
     filter (\<lambda>p. fst p \<notin> fst ` {q \<in> set rest. outOfRange cX cZ rs (snd q)}) used"
proof (induction rest arbitrary: used)
  case Nil
  show ?case by simp
next
  case (Cons e rest)
  obtain index chunk where e: "e = (index, chunk)" by (cases e)
  show ?case
  proof (cases "outOfRange cX cZ rs chunk")
    case True
    have "fst (cullLoop cX cZ rs (e # rest) used) =
            fst (cullLoop cX cZ rs rest (AList.delete index used))"
      using True e by (simp add: case_prod_beta)
    also have "\<dots> = filter (\<lambda>p. fst p \<notin> fst ` {q \<in> set rest. outOfRange cX cZ rs (snd q)})
                       (AList.delete index used)"
      by (rule Cons.IH)
    also have "\<dots> = filter (\<lambda>p. fst p \<notin> fst ` {q \<in> set (e # rest). outOfRange cX cZ rs (snd q)}) used"
      using True e by (force simp: AList.delete_eq intro!: filter_cong)
    finally show ?thesis .
  next
    case False
    have "{q \<in> set (e # rest). outOfRange cX cZ rs (snd q)} =
          {q \<in> set rest. outOfRange cX cZ rs (snd q)}"
      using False e by auto
    then show ?thesis using False e Cons.IH [of used] by simp
  qed
qed

lemma cullLoop_distinct:
  assumes "distinct (map fst used)"
  shows "fst (cullLoop cX cZ rs used used) =
           filter (\<lambda>(index, chunk). \<not> outOfRange cX cZ rs chunk) used"
proof -
  have "(fst p \<notin> fst ` {q \<in> set used. outOfRange cX cZ rs (snd q)}) =
        (\<not> outOfRange cX cZ rs (snd p))" if "p \<in> set used" for p
  proof
    assume "fst p \<notin> fst ` {q \<in> set used. outOfRange cX cZ rs (snd q)}"
    with that show "\<not> outOfRange cX cZ rs (snd p)" by force
  next
    assume n: "\<not> outOfRange cX cZ rs (snd p)"
    show "fst p \<notin> fst ` {q \<in> set used. outOfRange cX cZ rs (snd q)}"
    proof
      assume "fst p \<in> fst ` {q \<in> set used. outOfRange cX cZ rs (snd q)}"
      then obtain q where q: "q \<in> set used" "outOfRange cX cZ rs (snd q)" "fst q = fst p"
        by auto
      from assms that q(1) q(3) have "q = p"
        by (metis eq_key_imp_eq_value prod.collapse)
      with q(2) n show False by simp
    qed
  qed
  then show ?thesis
    by (simp add: cullLoop_used case_prod_unfold cong: filter_cong)
qed

text \<open>
  What a movement sync returns for a player placed in a world, with the test of the loop
  as the code computes it on \<open>int32\<close>.
\<close>

lemma SyncMove_result:
  assumes "human player = Some h" and "distinctKeys player"
  shows "SyncMove x y z pitch yaw headYaw og player =
     Some (player\<lparr> human := Some (h\<lparr> position := (x, y, z),
                      rotPitch := rotPitch h + pitch,
                      rotYaw := rotYaw h + yaw,
                      rotHeadYaw := rotHeadYaw h + headYaw \<rparr>),
                   onGround := og,
                   usedChunks := filter (\<lambda>(index, chunk). \<not> outOfRange (chunkCoord x) (chunkCoord z)
                        (viewDistance player * viewDistance player) chunk) (usedChunks player) \<rparr>,
           concat (map (\<lambda>(index, chunk). RemoveViewer chunk # map DespawnFrom (GetEntities chunk))
                 (filter (\<lambda>(index, chunk). outOfRange (chunkCoord x) (chunkCoord z)
                        (viewDistance player * viewDistance player) chunk) (usedChunks player))))"
proof -
  let ?cX = "chunkCoord x" and ?cZ = "chunkCoord z"
  let ?rs = "viewDistance player * viewDistance player"
  let ?r = "cullLoop ?cX ?cZ ?rs (usedChunks player) (usedChunks player)"
  from assms(2) have d: "distinct (map fst (usedChunks player))"
    by (simp add: distinctKeys_def)
  have "?r = (fst ?r, snd ?r)" by simp
  then have r: "?r = (filter (\<lambda>(index, chunk). \<not> outOfRange ?cX ?cZ ?rs chunk) (usedChunks player),
     concat (map (\<lambda>(index, chunk). RemoveViewer chunk # map DespawnFrom (GetEntities chunk))
                 (filter (\<lambda>(index, chunk). outOfRange ?cX ?cZ ?rs chunk) (usedChunks player))))"
    by (simp only: cullLoop_distinct [OF d] cullLoop_effs)
  show ?thesis
    by (simp add: SyncMove_def assms(1) GetViewDistance_def Let_def r)
qed

section \<open>Permissions\<close>

text \<open>
  Claim C3 says that \<open>HasPermission(name)\<close> is true if and only if the group grants the
  name or an explicit override for the name exists and its value is true. The code
  never reads the value of an override: with a group that grants nothing and an
  override for "fly" whose value is false, \<open>HasPermission\<close> returns true.
\<close>

theorem HasPermission_false_override_counterexample:
  "HasPermission (snd (AddPermission (NewPlayer denyAll ''Steve'') flyOff)) ''fly'' \<noteq>
   specHasPermission (snd (AddPermission (NewPlayer denyAll ''Steve'') flyOff)) ''fly''"
  by (simp add: HasPermission_def specHasPermission_def AddPermission_def NewPlayer_def
      denyAll_def flyOff_def GetName_def GroupHasPermission_def GetPermissionGroup_def)

text \<open>
  Claim C3, amended: for every permission name, \<open>HasPermission(name)\<close> returns true if and
  only if the group of the session grants the name or an explicit override for the
  name exists, whatever the override holds.
\<close>

theorem HasPermission_group_or_override:
  "HasPermission player name \<longleftrightarrow>
     GroupHasPermission (GetPermissionGroup player) name \<or> name \<in> dom (permissions player)"
  by (auto simp: HasPermission_def split: option.splits)

text \<open>
  Claim C4 says that \<open>AddPermission\<close> returns true only if an explicit override with the
  name existed before, a grant of the group alone not being enough; the comment of the
  function says the same ("Returns true if a permission with the same name was
  overwritten"). The code returns \<open>HasPermission\<close> of the name before the insertion, which
  the group alone makes true: a new player in a group granting "fly" has no override,
  and \<open>AddPermission\<close> of "fly" returns true.
\<close>

theorem AddPermission_group_grant_returns_true:
  "permissions (NewPlayer grantFly ''Steve'') ''fly'' = None \<and>
   fst (AddPermission (NewPlayer grantFly ''Steve'') flyOn) = True \<and>
   permissions (snd (AddPermission (NewPlayer grantFly ''Steve'') flyOn)) ''fly'' = Some flyOn"
  by (simp add: HasPermission_def AddPermission_def NewPlayer_def grantFly_def
      flyOn_def GetName_def GroupHasPermission_def GetPermissionGroup_def)

text \<open>
  Claim C5 says that \<open>RemovePermission(name)\<close> returns false whenever the session has no
  override for the name. The guard of the code is \<open>HasPermission\<close>, which the group alone
  makes true: a new player in a group granting "fly" has no override, and
  \<open>RemovePermission\<close> of "fly" returns true.
\<close>

theorem RemovePermission_group_grant_counterexample:
  "permissions (NewPlayer grantFly ''Steve'') ''fly'' = None \<and>
   fst (RemovePermission (NewPlayer grantFly ''Steve'') ''fly'') = True"
  by (simp add: HasPermission_def RemovePermission_def NewPlayer_def grantFly_def
      GroupHasPermission_def GetPermissionGroup_def)

text \<open>
  Claim C5, amended: for every permission name for which the session holds no explicit
  override, \<open>RemovePermission(name)\<close> leaves the session (overrides and group) unchanged,
  and it returns false if the group does not grant the name either.
\<close>

theorem RemovePermission_no_override:
  assumes "permissions player name = None"
  shows "snd (RemovePermission player name) = player \<and>
         (\<not> GroupHasPermission (GetPermissionGroup player) name \<longrightarrow>
            fst (RemovePermission player name) = False)"
proof -
  from assms have "(permissions player)(name := None) = permissions player"
    by (simp add: fun_upd_idem)
  with assms show ?thesis
    by (simp add: RemovePermission_def HasPermission_def)
qed

theorem RemovePermission_no_override_witness:
  "permissions (NewPlayer denyAll ''Steve'') ''fly'' = None \<and>
   snd (RemovePermission (NewPlayer denyAll ''Steve'') ''fly'') = NewPlayer denyAll ''Steve'' \<and>
   \<not> GroupHasPermission (GetPermissionGroup (NewPlayer denyAll ''Steve'')) ''fly'' \<and>
   fst (RemovePermission (NewPlayer denyAll ''Steve'') ''fly'') = False"
proof -
  have h: "permissions (NewPlayer denyAll ''Steve'') ''fly'' = None"
    by (simp add: NewPlayer_def)
  have g: "\<not> GroupHasPermission (GetPermissionGroup (NewPlayer denyAll ''Steve'')) ''fly''"
    by (simp add: NewPlayer_def denyAll_def GroupHasPermission_def GetPermissionGroup_def)
  from RemovePermission_no_override [OF h] g h show ?thesis by blast
qed

text \<open>
  Claim C9 (scenario C): if the group does not grant "fly" and the session has no override
  for "fly", then after \<open>AddPermission\<close> of a permission named "fly" \<open>HasPermission("fly")\<close>
  is true, and after \<open>RemovePermission("fly")\<close> on the result it is false again.
\<close>

theorem fly_added_then_removed:
  assumes "\<not> GroupHasPermission (GetPermissionGroup player) ''fly''"
    and "permissions player ''fly'' = None"
    and "GetName permission = ''fly''"
  shows "HasPermission (snd (AddPermission player permission)) ''fly'' \<and>
         \<not> HasPermission
             (snd (RemovePermission (snd (AddPermission player permission)) ''fly'')) ''fly''"
  using assms
  by (simp add: AddPermission_def RemovePermission_def HasPermission_def GetPermissionGroup_def)

theorem fly_added_then_removed_witness:
  "\<not> GroupHasPermission (GetPermissionGroup (NewPlayer denyAll ''Steve'')) ''fly'' \<and>
   permissions (NewPlayer denyAll ''Steve'') ''fly'' = None \<and>
   GetName flyOn = ''fly'' \<and>
   HasPermission (snd (AddPermission (NewPlayer denyAll ''Steve'') flyOn)) ''fly'' \<and>
   \<not> HasPermission
       (snd (RemovePermission (snd (AddPermission (NewPlayer denyAll ''Steve'') flyOn)) ''fly''))
       ''fly''"
proof -
  have g: "\<not> GroupHasPermission (GetPermissionGroup (NewPlayer denyAll ''Steve'')) ''fly''"
    by (simp add: NewPlayer_def denyAll_def GroupHasPermission_def GetPermissionGroup_def)
  have h: "permissions (NewPlayer denyAll ''Steve'') ''fly'' = None"
    by (simp add: NewPlayer_def)
  have n: "GetName flyOn = ''fly''"
    by (simp add: GetName_def flyOn_def)
  from fly_added_then_removed [OF g h n] g h n show ?thesis by blast
qed

section \<open>Movement sync and the tracked chunks\<close>

text \<open>
  The movement sync of a player placed in a world, when the computation of the loop
  stays within 32 bits for every tracked chunk: the entries farther than the view
  distance are removed, each with the calls \<open>RemoveViewer\<close> and \<open>DespawnFrom\<close>, the
  others stay, and nothing else but position, rotation and the on-ground flag changes.
\<close>

lemma SyncMove_exact:
  assumes "human player = Some h" and "distinctKeys player"
    and "\<forall>(index, chunk) \<in> set (usedChunks player).
           noOverflow (chunkCoord x) (chunkCoord z) (viewDistance player) chunk"
  shows "SyncMove x y z pitch yaw headYaw og player =
     Some (player\<lparr> human := Some (h\<lparr> position := (x, y, z),
                      rotPitch := rotPitch h + pitch,
                      rotYaw := rotYaw h + yaw,
                      rotHeadYaw := rotHeadYaw h + headYaw \<rparr>),
                   onGround := og,
                   usedChunks := filter (\<lambda>(index, chunk).
                        sqDist (chunkCoord x) (chunkCoord z) chunk
                          \<le> sint (viewDistance player) * sint (viewDistance player))
                      (usedChunks player) \<rparr>,
           concat (map (\<lambda>(index, chunk). RemoveViewer chunk # map DespawnFrom (GetEntities chunk))
                 (filter (\<lambda>(index, chunk).
                        sint (viewDistance player) * sint (viewDistance player)
                          < sqDist (chunkCoord x) (chunkCoord z) chunk)
                    (usedChunks player))))"
proof -
  let ?cX = "chunkCoord x" and ?cZ = "chunkCoord z" and ?vd = "viewDistance player"
  have e: "outOfRange ?cX ?cZ (?vd * ?vd) (snd p) \<longleftrightarrow> sint ?vd * sint ?vd < sqDist ?cX ?cZ (snd p)"
    if "p \<in> set (usedChunks player)" for p
    using assms(3) that by (intro outOfRange_exact) auto
  have keep: "filter (\<lambda>(index, chunk). \<not> outOfRange ?cX ?cZ (?vd * ?vd) chunk) (usedChunks player) =
     filter (\<lambda>(index, chunk). sqDist ?cX ?cZ chunk \<le> sint ?vd * sint ?vd) (usedChunks player)"
    by (rule filter_cong) (auto simp: e case_prod_unfold not_less)
  have drop: "filter (\<lambda>(index, chunk). outOfRange ?cX ?cZ (?vd * ?vd) chunk) (usedChunks player) =
     filter (\<lambda>(index, chunk). sint ?vd * sint ?vd < sqDist ?cX ?cZ chunk) (usedChunks player)"
    by (rule filter_cong) (auto simp: e case_prod_unfold)
  show ?thesis
    unfolding SyncMove_result [OF assms(1) assms(2)] keep drop ..
qed

lemma SyncMove_SomeD:
  assumes "SyncMove x y z pitch yaw headYaw og player = Some (player', effs)"
    and "distinctKeys player"
  shows "usedChunks player' =
           filter (\<lambda>(index, chunk). \<not> outOfRange (chunkCoord x) (chunkCoord z)
                     (viewDistance player * viewDistance player) chunk) (usedChunks player)"
    and "viewDistance player' = viewDistance player"
    and "distinctKeys player'"
proof -
  from assms(1) obtain h where h: "human player = Some h"
    by (cases "human player") (simp_all add: SyncMove_def)
  note r = SyncMove_result [OF h assms(2), of x y z pitch yaw headYaw og]
  from r assms(1) show u: "usedChunks player' =
           filter (\<lambda>(index, chunk). \<not> outOfRange (chunkCoord x) (chunkCoord z)
                     (viewDistance player * viewDistance player) chunk) (usedChunks player)"
    by auto
  from r assms(1) show "viewDistance player' = viewDistance player"
    by auto
  from assms(2) show "distinctKeys player'"
    unfolding distinctKeys_def u by (rule distinct_map_filter)
qed

lemma SyncMoves_append:
  "SyncMoves (ms @ ns) player =
     (case SyncMoves ms player of None \<Rightarrow> None | Some player' \<Rightarrow> SyncMoves ns player')"
  by (induction ms player rule: SyncMoves.induct) (auto split: option.splits)

lemma SyncMoves_SomeD:
  assumes "SyncMoves ms player = Some player'" and "distinctKeys player"
  shows "set (usedChunks player') \<subseteq> set (usedChunks player) \<and>
         viewDistance player' = viewDistance player \<and> distinctKeys player'"
  using assms
proof (induction ms player rule: SyncMoves.induct)
  case (1 player)
  then show ?case by simp
next
  case (2 x y z pitch yaw headYaw og ms player)
  from "2.prems"(1) obtain q effs
    where q: "SyncMove x y z pitch yaw headYaw og player = Some (q, effs)"
      and rest: "SyncMoves ms q = Some player'"
    by (auto split: option.splits)
  note step = SyncMove_SomeD [OF q "2.prems"(2)]
  from "2.IH" [OF q refl rest step(3)]
  have "set (usedChunks player') \<subseteq> set (usedChunks q)"
    and "viewDistance player' = viewDistance q" and "distinctKeys player'"
    by simp_all
  moreover have "set (usedChunks q) \<subseteq> set (usedChunks player)"
    unfolding step(1) by (rule filter_is_subset)
  ultimately show ?case using step(2) by auto
qed

lemma sqDist_pos_iff:
  "0 < sqDist cX cZ chunk \<longleftrightarrow> \<not> (GetX chunk = cX \<and> GetZ chunk = cZ)"
proof -
  have "sqDist cX cZ chunk = 0 \<longleftrightarrow> sint cX - sint (GetX chunk) = 0 \<and> sint cZ - sint (GetZ chunk) = 0"
    unfolding sqDist_def by (rule sum_squares_eq_zero_iff)
  moreover have "0 \<le> sqDist cX cZ chunk"
    by (simp add: sqDist_def)
  moreover have "sint cX - sint (GetX chunk) = 0 \<longleftrightarrow> GetX chunk = cX"
    by (auto dest: signed_word_eqI)
  moreover have "sint cZ - sint (GetZ chunk) = 0 \<longleftrightarrow> GetZ chunk = cZ"
    by (auto dest: signed_word_eqI)
  ultimately show ?thesis
    by (simp add: less_le)
qed

text \<open>
  Claim C1 says that after every successful movement sync the tracked-chunk set contains
  a chunk if and only if its squared planar distance from the synced chunk coordinate is
  at most the view distance squared. \<open>SyncMove\<close> only removes entries: a player with view
  distance 2 and no tracked chunk, synced at the origin, still tracks nothing, although
  the chunk at the origin is at distance 0.
\<close>

theorem SyncMove_adds_nothing_counterexample:
  "map_option (usedChunks \<circ> fst) (SyncMove 0 64 0 0 0 0 True (placed 2)) = Some [] \<and>
   sqDist (chunkCoord 0) (chunkCoord 0) originChunk
     \<le> sint (viewDistance (placed 2)) * sint (viewDistance (placed 2))"
  by (simp add: SyncMove_def sqDist_def chunkCoord_def floorInt32_def fitsInt32_def fixture_defs)

text \<open>
  Claim C1, amended: after every successful movement sync, whatever sequence of successful
  movement syncs came before it, the tracked-chunk set contains a chunk if and only if
  the chunk was tracked immediately before that sync (so it was tracked before the
  sequence too) and its squared planar distance from the chunk coordinate of that sync,
  the floored position divided by 16, is at most the view distance squared. This is
  provided the floored coordinates of the sync fit 32 bits and the computation of the
  distance test stays within 32 bits for the chunks tracked before the sync. A movement
  sync adds no chunk.
\<close>

theorem SyncMoves_tracked_iff:
  assumes "SyncMoves ms player = Some q"
    and "SyncMove x y z pitch yaw headYaw og q = Some (player', effs)"
    and "distinctKeys player"
    and "fitsInt32 x" and "fitsInt32 z"
    and "\<forall>(index, chunk) \<in> set (usedChunks q).
           noOverflow (chunkCoord x) (chunkCoord z) (viewDistance player) chunk"
  shows "sint (chunkCoord x) = \<lfloor>x\<rfloor> div 16 \<and> sint (chunkCoord z) = \<lfloor>z\<rfloor> div 16 \<and>
         viewDistance player' = viewDistance player \<and>
         set (usedChunks q) \<subseteq> set (usedChunks player) \<and>
         usedChunks player' =
           filter (\<lambda>(index, chunk). sqDist (chunkCoord x) (chunkCoord z) chunk
                      \<le> sint (viewDistance player) * sint (viewDistance player))
             (usedChunks q) \<and>
         (\<forall>index chunk. (index, chunk) \<in> set (usedChunks player') \<longleftrightarrow>
            (index, chunk) \<in> set (usedChunks q) \<and>
            sqDist (chunkCoord x) (chunkCoord z) chunk
              \<le> sint (viewDistance player) * sint (viewDistance player))"
proof -
  from SyncMoves_SomeD [OF assms(1) assms(3)]
  have sub: "set (usedChunks q) \<subseteq> set (usedChunks player)"
    and vd: "viewDistance q = viewDistance player" and dq: "distinctKeys q"
    by simp_all
  from assms(2) obtain h where h: "human q = Some h"
    by (cases "human q") (simp_all add: SyncMove_def)
  from assms(6) have n: "\<forall>(index, chunk) \<in> set (usedChunks q).
           noOverflow (chunkCoord x) (chunkCoord z) (viewDistance q) chunk"
    by (simp add: vd)
  from SyncMove_exact [OF h dq n, of y pitch yaw headYaw og] assms(2)
  have u: "usedChunks player' =
           filter (\<lambda>(index, chunk). sqDist (chunkCoord x) (chunkCoord z) chunk
                      \<le> sint (viewDistance player) * sint (viewDistance player))
             (usedChunks q)"
    and v: "viewDistance player' = viewDistance player"
    by (auto simp: vd)
  have m: "\<forall>index chunk. (index, chunk) \<in> set (usedChunks player') \<longleftrightarrow>
            (index, chunk) \<in> set (usedChunks q) \<and>
            sqDist (chunkCoord x) (chunkCoord z) chunk
              \<le> sint (viewDistance player) * sint (viewDistance player)"
    by (simp add: u)
  from chunkCoord_floor [OF assms(4)] chunkCoord_floor [OF assms(5)] v sub u m
  show ?thesis by blast
qed

theorem SyncMoves_tracked_iff_witness:
  "SyncMoves [(40, 64, 0, 0, 0, 0, False)] (tracking 3) = Some midMoves \<and>
   SyncMove 3 70 5 1 2 3 True midMoves =
     Some (afterMoves, [RemoveViewer eastChunk, DespawnFrom 8, DespawnFrom 9]) \<and>
   distinctKeys (tracking 3) \<and>
   fitsInt32 3 \<and> fitsInt32 5 \<and>
   usedChunks midMoves = [(0, originChunk), (1, eastChunk)] \<and>
   noOverflow (chunkCoord 3) (chunkCoord 5) (viewDistance (tracking 3)) originChunk \<and>
   noOverflow (chunkCoord 3) (chunkCoord 5) (viewDistance (tracking 3)) eastChunk \<and>
   sint (chunkCoord 3) = 0 \<and> sint (chunkCoord 5) = 0 \<and>
   viewDistance afterMoves = viewDistance (tracking 3) \<and>
   usedChunks afterMoves =
     filter (\<lambda>(index, chunk). sqDist (chunkCoord 3) (chunkCoord 5) chunk
                \<le> sint (viewDistance (tracking 3)) * sint (viewDistance (tracking 3)))
       (usedChunks midMoves) \<and>
   usedChunks afterMoves = [(0, originChunk)]"
proof -
  have first: "SyncMoves [(40, 64, 0, 0, 0, 0, False)] (tracking 3) = Some midMoves"
    by (simp add: SyncMove_def outOfRange_def GetViewDistance_def chunkCoord_def floorInt32_def
        fitsInt32_def midMoves_def fixture_defs)
  have run: "SyncMove 3 70 5 1 2 3 True midMoves =
     Some (afterMoves, [RemoveViewer eastChunk, DespawnFrom 8, DespawnFrom 9])"
    by (simp add: SyncMove_def outOfRange_def GetViewDistance_def chunkCoord_def floorInt32_def
        fitsInt32_def midMoves_def afterMoves_def fixture_defs)
  have d: "distinctKeys (tracking 3)"
    by (simp add: distinctKeys_def fixture_defs)
  have fx: "fitsInt32 3" and fz: "fitsInt32 5"
    by (simp_all add: fitsInt32_def)
  have u: "usedChunks midMoves = [(0, originChunk), (1, eastChunk)]"
    by (simp add: midMoves_def fixture_defs)
  have n0: "noOverflow (chunkCoord 3) (chunkCoord 5) (viewDistance (tracking 3)) originChunk"
    by (simp add: noOverflow_def chunkCoord_def floorInt32_def fitsInt32_def fixture_defs)
  have n1: "noOverflow (chunkCoord 3) (chunkCoord 5) (viewDistance (tracking 3)) eastChunk"
    by (simp add: noOverflow_def chunkCoord_def floorInt32_def fitsInt32_def fixture_defs)
  have n: "\<forall>(index, chunk) \<in> set (usedChunks midMoves).
             noOverflow (chunkCoord 3) (chunkCoord 5) (viewDistance (tracking 3)) chunk"
    using n0 n1 by (simp add: u)
  have a: "usedChunks afterMoves = [(0, originChunk)]"
    by (simp add: afterMoves_def)
  from SyncMoves_tracked_iff [OF first run d fx fz n]
  have "sint (chunkCoord 3) = 0 \<and> sint (chunkCoord 5) = 0 \<and>
        viewDistance afterMoves = viewDistance (tracking 3) \<and>
        usedChunks afterMoves =
          filter (\<lambda>(index, chunk). sqDist (chunkCoord 3) (chunkCoord 5) chunk
                \<le> sint (viewDistance (tracking 3)) * sint (viewDistance (tracking 3)))
            (usedChunks midMoves)"
    by simp
  with first run d fx fz u n0 n1 a show ?thesis by blast
qed

text \<open>
  Claim C2 says that a movement sync removes every tracked entry whose squared planar
  distance to the current chunk coordinate exceeds the view distance squared. The code
  computes both squares on \<open>int32\<close>: with view distance 2 and the chunks at \<open>(0, 0)\<close> and
  \<open>(5, 0)\<close> tracked, a sync at \<open>x = 1048576\<close> (chunk 65536) finds the wrapped values
  \<open>0\<close> and \<open>-655335\<close>, neither above 4, keeps both entries and makes no call, although
  both chunks are more than 65000 chunks away.
\<close>

theorem SyncMove_overflow_keeps_far_chunks:
  "map_option (usedChunks \<circ> fst) (SyncMove 1048576 64 0 0 0 0 True (tracking 2))
     = Some [(0, originChunk), (1, eastChunk)] \<and>
   map_option snd (SyncMove 1048576 64 0 0 0 0 True (tracking 2)) = Some [] \<and>
   sint (viewDistance (tracking 2)) * sint (viewDistance (tracking 2))
     < sqDist (chunkCoord 1048576) (chunkCoord 0) originChunk \<and>
   sint (viewDistance (tracking 2)) * sint (viewDistance (tracking 2))
     < sqDist (chunkCoord 1048576) (chunkCoord 0) eastChunk"
  by (simp add: SyncMove_def outOfRange_def GetViewDistance_def sqDist_def chunkCoord_def floorInt32_def fitsInt32_def fixture_defs)

text \<open>
  Claim C8 says that with view distance 0 no chunk is tracked after a movement sync. The
  test of the loop is \<open>xDist*xDist+zDist*zDist > rs\<close>: a tracked chunk at the player's own chunk coordinate has
  distance 0, which is not above 0, and stays.
\<close>

theorem SyncMove_view_distance_zero_counterexample:
  "viewDistance (tracking 0) = 0 \<and>
   map_option (usedChunks \<circ> fst) (SyncMove 3 70 5 0 0 0 True (tracking 0)) = Some [(0, originChunk)]"
  by (simp add: SyncMove_def outOfRange_def GetViewDistance_def chunkCoord_def floorInt32_def fitsInt32_def fixture_defs)

text \<open>
  Claim C8, amended: with view distance 0, after a successful movement sync the session
  tracks exactly those of the chunks tracked before whose coordinate is the player's
  current chunk coordinate, the floored position divided by 16. This is provided the
  floored coordinates of the sync fit 32 bits and the computation of the distance test
  stays within 32 bits for the chunks tracked before.
\<close>

theorem SyncMove_view_distance_zero:
  assumes "SyncMove x y z pitch yaw headYaw og player = Some (player', effs)"
    and "viewDistance player = 0"
    and "distinctKeys player"
    and "fitsInt32 x" and "fitsInt32 z"
    and "\<forall>(index, chunk) \<in> set (usedChunks player).
           noOverflow (chunkCoord x) (chunkCoord z) (viewDistance player) chunk"
  shows "sint (chunkCoord x) = \<lfloor>x\<rfloor> div 16 \<and> sint (chunkCoord z) = \<lfloor>z\<rfloor> div 16 \<and>
         usedChunks player' =
           filter (\<lambda>(index, chunk). GetX chunk = chunkCoord x \<and> GetZ chunk = chunkCoord z)
             (usedChunks player)"
proof -
  have "(\<not> outOfRange (chunkCoord x) (chunkCoord z) (viewDistance player * viewDistance player) (snd p))
          = (GetX (snd p) = chunkCoord x \<and> GetZ (snd p) = chunkCoord z)"
    if "p \<in> set (usedChunks player)" for p
  proof -
    from assms(6) that
    have "noOverflow (chunkCoord x) (chunkCoord z) (viewDistance player) (snd p)"
      by auto
    from outOfRange_exact [OF this] show ?thesis
      by (simp add: assms(2) sqDist_pos_iff)
  qed
  then have "filter (\<lambda>(index, chunk). \<not> outOfRange (chunkCoord x) (chunkCoord z)
                     (viewDistance player * viewDistance player) chunk) (usedChunks player) =
        filter (\<lambda>(index, chunk). GetX chunk = chunkCoord x \<and> GetZ chunk = chunkCoord z)
             (usedChunks player)"
    by (intro filter_cong) (auto simp: case_prod_unfold)
  with SyncMove_SomeD(1) [OF assms(1) assms(3)]
  have "usedChunks player' =
           filter (\<lambda>(index, chunk). GetX chunk = chunkCoord x \<and> GetZ chunk = chunkCoord z)
             (usedChunks player)"
    by simp
  with chunkCoord_floor [OF assms(4)] chunkCoord_floor [OF assms(5)] show ?thesis by blast
qed

theorem SyncMove_view_distance_zero_witness:
  "SyncMove 3 70 5 1 2 3 True (tracking 0) =
     Some (afterZero, [RemoveViewer eastChunk, DespawnFrom 8, DespawnFrom 9]) \<and>
   viewDistance (tracking 0) = 0 \<and>
   distinctKeys (tracking 0) \<and>
   fitsInt32 3 \<and> fitsInt32 5 \<and>
   usedChunks (tracking 0) = [(0, originChunk), (1, eastChunk)] \<and>
   noOverflow (chunkCoord 3) (chunkCoord 5) (viewDistance (tracking 0)) originChunk \<and>
   noOverflow (chunkCoord 3) (chunkCoord 5) (viewDistance (tracking 0)) eastChunk \<and>
   sint (chunkCoord 3) = 0 \<and> sint (chunkCoord 5) = 0 \<and>
   usedChunks afterZero =
     filter (\<lambda>(index, chunk). GetX chunk = chunkCoord 3 \<and> GetZ chunk = chunkCoord 5)
       (usedChunks (tracking 0)) \<and>
   usedChunks afterZero = [(0, originChunk)]"
proof -
  have run: "SyncMove 3 70 5 1 2 3 True (tracking 0) =
     Some (afterZero, [RemoveViewer eastChunk, DespawnFrom 8, DespawnFrom 9])"
    by (simp add: SyncMove_def outOfRange_def GetViewDistance_def chunkCoord_def floorInt32_def
        fitsInt32_def afterZero_def fixture_defs)
  have v: "viewDistance (tracking 0) = 0"
    by (simp add: fixture_defs)
  have d: "distinctKeys (tracking 0)"
    by (simp add: distinctKeys_def fixture_defs)
  have fx: "fitsInt32 3" and fz: "fitsInt32 5"
    by (simp_all add: fitsInt32_def)
  have u: "usedChunks (tracking 0) = [(0, originChunk), (1, eastChunk)]"
    by (simp add: fixture_defs)
  have n0: "noOverflow (chunkCoord 3) (chunkCoord 5) (viewDistance (tracking 0)) originChunk"
    by (simp add: noOverflow_def chunkCoord_def floorInt32_def fitsInt32_def fixture_defs)
  have n1: "noOverflow (chunkCoord 3) (chunkCoord 5) (viewDistance (tracking 0)) eastChunk"
    by (simp add: noOverflow_def chunkCoord_def floorInt32_def fitsInt32_def fixture_defs)
  have n: "\<forall>(index, chunk) \<in> set (usedChunks (tracking 0)).
             noOverflow (chunkCoord 3) (chunkCoord 5) (viewDistance (tracking 0)) chunk"
    using n0 n1 by (simp add: u)
  have a: "usedChunks afterZero = [(0, originChunk)]"
    by (simp add: afterZero_def)
  from SyncMove_view_distance_zero [OF run v d fx fz n]
  have "sint (chunkCoord 3) = 0 \<and> sint (chunkCoord 5) = 0 \<and>
        usedChunks afterZero =
          filter (\<lambda>(index, chunk). GetX chunk = chunkCoord 3 \<and> GetZ chunk = chunkCoord 5)
            (usedChunks (tracking 0))"
    by simp
  with run v d fx fz u n0 n1 a show ?thesis by blast
qed

section \<open>The finalized flag\<close>

text \<open>
  Claim C7 says that a finalized session tracks no chunk and that nothing adds an entry
  afterwards. \<open>SetFinalized\<close> only sets the flag and no function reads it: the session
  tracking two chunks still tracks them once finalized, and \<open>SendChunk\<close> then adds a
  third entry.
\<close>

theorem finalized_still_tracks_counterexample:
  "IsFinalized (SetFinalized (tracking 2)) \<and>
   usedChunks (SetFinalized (tracking 2)) = [(0, originChunk), (1, eastChunk)] \<and>
   usedChunks (fst (SendChunk originChunk 2 (SetFinalized (tracking 2))))
     = [(0, originChunk), (1, eastChunk), (2, originChunk)]"
  by (simp add: IsFinalized_def SetFinalized_def fixture_defs)

text \<open>
  Claim C7, amended: \<open>SetFinalized\<close> sets the finalized flag and leaves the tracked-chunk
  set as it was; \<open>SendChunk\<close> and \<open>SyncMove\<close> do not consult the flag: on a finalized
  session \<open>SendChunk\<close> still stores the chunk under its index, and both do to a finalized
  session what they do to the same session not finalized.
\<close>

theorem finalized_flag_not_consulted:
  "IsFinalized (SetFinalized player) \<and>
   usedChunks (SetFinalized player) = usedChunks player \<and>
   SendChunk chunk index (SetFinalized player) =
     (SetFinalized (fst (SendChunk chunk index player)), snd (SendChunk chunk index player)) \<and>
   map_of (usedChunks (fst (SendChunk chunk index (SetFinalized player)))) index = Some chunk \<and>
   SyncMove x y z pitch yaw headYaw og (SetFinalized player) =
     map_option (\<lambda>(player', effs). (SetFinalized player', effs))
       (SyncMove x y z pitch yaw headYaw og player)"
  by (simp add: IsFinalized_def SetFinalized_def SendChunk_def SyncMove_def GetViewDistance_def
      update_conv' Let_def split: option.splits prod.splits)

section \<open>The login handler\<close>

text \<open>A login with a name that is not registered: the model of the accepting path.\<close>

lemma Handle_accepts_new_name:
  "Handle (Login steveLogin) None 5 emptyServer =
     (True, Some \<lparr> lpSession = 5, lpName = ''Steve'', lpUUID = ''u-1'', lpXUID = ''x-1'',
       lpClientId = 1, lpLanguage = ''en_US'', lpSkinId = ''skin'', lpSkinData = [],
       lpCapeData = [], lpGeometryName = ''geometry.humanoid'', lpGeometryData = [] \<rparr>,
      \<lparr> players = [''Steve'' \<mapsto> \<lparr> lpSession = 5, lpName = ''Steve'', lpUUID = ''u-1'', lpXUID = ''x-1'',
       lpClientId = 1, lpLanguage = ''en_US'', lpSkinId = ''skin'', lpSkinData = [],
       lpCapeData = [], lpGeometryName = ''geometry.humanoid'', lpGeometryData = [] \<rparr>],
        sent = [(PlayStatusPacket 0, 5), (ResourcePackInfoPacket, 5)] \<rparr>)"
  by (simp add: Handle_def GetPlayerByName_def steveLogin_def emptyServer_def NewPlayer_login_def
      SetLanguage_def SetSkinId_def SetSkinData_def SetCapeData_def SetGeometryName_def
      SetGeometryData_def SendPacket_def AddPlayer_def Let_def)

text \<open>
  Claim C6: when the registry already holds a session with the username of the login
  packet, \<open>Handle\<close> returns false, constructs no session, and leaves the server as it
  was: nothing is registered and no packet is sent.
\<close>

theorem Handle_rejects_registered_name:
  assumes "players server (Username loginPacket) = Some existing"
  shows "Handle (Login loginPacket) player session server = (False, None, server)"
  using assms by (simp add: Handle_def GetPlayerByName_def)

theorem Handle_rejects_registered_name_witness:
  "players steveOnline (Username steveLogin) = Some steve \<and>
   Handle (Login steveLogin) None 5 steveOnline = (False, None, steveOnline)"
proof -
  have h: "players steveOnline (Username steveLogin) = Some steve"
    by (simp add: steveOnline_def AddPlayer_def steve_def NewPlayer_login_def steveLogin_def emptyServer_def)
  from Handle_rejects_registered_name [OF h] h show ?thesis by blast
qed

text \<open>
  Claim C10: for every packet that is not a login packet, \<open>Handle\<close> returns true,
  constructs no session, and leaves the server as it was: the registry is not changed
  and no packet is sent.
\<close>

theorem Handle_ignores_other_packets:
  assumes "\<not> is_Login packet"
  shows "Handle packet player session server = (True, None, server)"
  using assms by (cases packet) (simp_all add: Handle_def)

theorem Handle_ignores_other_packets_witness:
  "\<not> is_Login (Other 9) \<and> Handle (Other 9) None 5 steveOnline = (True, None, steveOnline)"
proof -
  have h: "\<not> is_Login (Other 9)" by simp
  from Handle_ignores_other_packets [OF h] h show ?thesis by blast
qed

end
